theory Spec2Isabelle
  imports Main "HOL-Library.Word"
begin

section \<open>Data model of \<open>src/index.tsx\<close>\<close>

text \<open>
  The program is one module: nine DOM element references, one module variable
  \<open>selectedFile\<close>, three helper functions and two event listeners.  The DOM properties
  the module reads or writes, together with \<open>selectedFile\<close>, form the record \<open>page\<close>;
  every function of the module becomes a function on that record.

  Strings are \<open>char list\<close>; a character stands for a code unit below 256.
\<close>

type_synonym byte = "8 word"

text \<open>The platform's \<open>File\<close>: a name, a media type and the stored bytes.\<close>

record File =
  name :: string
  type :: string
  bytes :: "byte list"

text \<open>The parts of a request and of a response (\<open>Part\<close>, \<open>Blob\<close> of the client library).\<close>

record Blob =
  data :: string
  mimeType :: string

record Part =
  inlineData :: "Blob option"
  text_of :: "string option"

record Content =
  parts :: "Part list option"

record Candidate =
  content :: "Content option"

record GenerateContentResponse =
  candidates :: "Candidate list option"

datatype Modality = IMAGE | TEXT

record request =
  model :: string
  contents :: "Part list"
  responseModalities :: "Modality list"

text \<open>
  A value that a promise rejects with or that \<open>catch\<close> receives: an \<open>Error\<close> object with its
  message, the \<open>ProgressEvent\<close> that \<open>FileReader.onerror\<close> is called with, or any other
  value that is not an \<open>Error\<close>.
\<close>

datatype thrown = Error string | ProgressEvent | NonError string

fun instanceof_Error :: "thrown \<Rightarrow> bool" where
  "instanceof_Error (Error m) = True"
| "instanceof_Error ProgressEvent = False"
| "instanceof_Error (NonError v) = False"

text \<open>
  What a \<open>FileReader\<close> started with \<open>readAsDataURL\<close> ends with: \<open>onload\<close> with the result
  string, or \<open>onerror\<close>.
\<close>

datatype reader_event = Load string | ReadError

text \<open>
  The two collaborators outside the module: the platform's file reader and the remote
  service behind \<open>ai.models.generateContent\<close>, whose promise resolves with a response or
  rejects with some value.
\<close>

record env =
  readAsDataURL :: "File \<Rightarrow> reader_event"
  generateContent :: "request \<Rightarrow> thrown + GenerateContentResponse"

record page =
  selectedFile :: "File option"
  imageUpload_disabled :: bool
  imagePreview_src :: string
  imagePreview_display :: string
  uploadPlaceholder_display :: string
  promptInput_value :: string
  promptInput_disabled :: bool
  generateBtn_disabled :: bool
  resultPlaceholder_display :: string
  resultPlaceholder_textContent :: string
  resultPlaceholder_color :: string
  resultImage_src :: string
  resultImage_display :: string
  loader_classList :: "string list"

text \<open>
  The calls a handler makes, in order: the helper calls, the reads it starts, the requests
  it issues and what it writes to the console.
\<close>

datatype event =
    SetLoading bool
  | DisplayError string
  | ReadAsDataURL File
  | GenerateContent request
  | ConsoleError thrown

fun is_SetLoading :: "event \<Rightarrow> bool" where
  "is_SetLoading (SetLoading b) = True"
| "is_SetLoading e = False"

fun is_DisplayError :: "event \<Rightarrow> bool" where
  "is_DisplayError (DisplayError m) = True"
| "is_DisplayError e = False"

fun is_GenerateContent :: "event \<Rightarrow> bool" where
  "is_GenerateContent (GenerateContent r) = True"
| "is_GenerateContent e = False"

fun is_ReadAsDataURL :: "event \<Rightarrow> bool" where
  "is_ReadAsDataURL (ReadAsDataURL f) = True"
| "is_ReadAsDataURL e = False"

type_synonym run = "page \<times> event list"

section \<open>Platform string and list operations\<close>

text \<open>\<open>String.prototype.split\<close> with a one-character separator.\<close>

fun split :: "char \<Rightarrow> string \<Rightarrow> string list" where
  "split c [] = [[]]"
| "split c (x # xs) =
     (if x = c then [] # split c xs
      else (x # hd (split c xs)) # tl (split c xs))"

text \<open>Array indexing: \<open>undefined\<close> out of range.\<close>

definition nth_opt :: "'a list \<Rightarrow> nat \<Rightarrow> 'a option" where
  "nth_opt xs i = (if i < length xs then Some (xs ! i) else None)"

text \<open>
  \<open>String.prototype.trim\<close>: the white space and line terminator code units below 256 are
  TAB, LF, VT, FF, CR, SP and NBSP.
\<close>

definition is_whitespace :: "char \<Rightarrow> bool" where
  "is_whitespace c = ((of_char c :: nat) \<in> {9, 10, 11, 12, 13, 32, 160})"

definition trim :: "string \<Rightarrow> string" where
  "trim s = rev (dropWhile is_whitespace (rev (dropWhile is_whitespace s)))"

text \<open>\<open>DOMTokenList.add\<close> and \<open>DOMTokenList.remove\<close>.\<close>

definition classList_add :: "string \<Rightarrow> string list \<Rightarrow> string list" where
  "classList_add t ts = (if t \<in> set ts then ts else ts @ [t])"

definition classList_remove :: "string \<Rightarrow> string list \<Rightarrow> string list" where
  "classList_remove t ts = filter (\<lambda>u. u \<noteq> t) ts"

section \<open>Helper functions\<close>

text \<open>
  \<open>fileToGenerativePart\<close> (lines 30-50).  The promise settles in one of the two reader
  callbacks, so the function of the reader's event is the value the promise settles with:
  \<open>Inr\<close> the part it resolves with, \<open>Inl\<close> what it rejects with.
\<close>

definition fileToGenerativePart :: "reader_event \<Rightarrow> File \<Rightarrow> thrown + Part" where
  "fileToGenerativePart ev file =
     (case ev of
        Load result \<Rightarrow>
          (case nth_opt (split CHR '','' result) 1 of
             Some base64Data \<Rightarrow>
               if base64Data \<noteq> []
               then Inr \<lparr>inlineData = Some \<lparr>data = base64Data, mimeType = type file\<rparr>,
                         text_of = None\<rparr>
               else Inl (Error ''Failed to read file as base64.'')
           | None \<Rightarrow> Inl (Error ''Failed to read file as base64.''))
      | ReadError \<Rightarrow> Inl ProgressEvent)"

text \<open>\<open>setLoading\<close> (lines 56-68).\<close>

definition setLoading :: "bool \<Rightarrow> page \<Rightarrow> page" where
  "setLoading isLoading s =
     (if isLoading
      then s\<lparr>loader_classList := classList_remove ''hidden'' (loader_classList s),
             generateBtn_disabled := True,
             promptInput_disabled := True,
             imageUpload_disabled := True\<rparr>
      else s\<lparr>loader_classList := classList_add ''hidden'' (loader_classList s),
             generateBtn_disabled := (selectedFile s = None),
             promptInput_disabled := False,
             imageUpload_disabled := False\<rparr>)"

text \<open>\<open>displayError\<close> (lines 74-79).\<close>

definition displayError :: "string \<Rightarrow> page \<Rightarrow> page" where
  "displayError msg s =
     s\<lparr>resultImage_display := ''none'',
       resultPlaceholder_display := ''block'',
       resultPlaceholder_textContent := ''Error: '' @ msg,
       resultPlaceholder_color := ''var(--error-color)''\<rparr>"

text \<open>A call of a helper inside a handler: the helper's effect, and the call recorded.\<close>

definition call_setLoading :: "bool \<Rightarrow> run \<Rightarrow> run" where
  "call_setLoading b st = (setLoading b (fst st), snd st @ [SetLoading b])"

definition call_displayError :: "string \<Rightarrow> run \<Rightarrow> run" where
  "call_displayError msg st = (displayError msg (fst st), snd st @ [DisplayError msg])"

section \<open>Event listeners\<close>

text \<open>
  The \<open>change\<close> listener of the file input (lines 88-101), given \<open>imageUpload.files\<close>
  (\<open>None\<close> for \<open>null\<close>).  The preview is written in the reader's \<open>onload\<close>; the listener
  sets no \<open>onerror\<close>.
\<close>

definition imageUpload_change :: "env \<Rightarrow> File list option \<Rightarrow> run \<Rightarrow> run" where
  "imageUpload_change e files st =
     (case files of
        None \<Rightarrow> st
      | Some [] \<Rightarrow> st
      | Some (f # fs) \<Rightarrow>
          (let s = (fst st)\<lparr>selectedFile := Some f\<rparr>;
               tr = snd st @ [ReadAsDataURL f]
           in case readAsDataURL e f of
                Load result \<Rightarrow>
                  (s\<lparr>imagePreview_src := result,
                     imagePreview_display := ''block'',
                     uploadPlaceholder_display := ''none'',
                     generateBtn_disabled := False\<rparr>, tr)
              | ReadError \<Rightarrow> (s, tr)))"

text \<open>
  The loop over the response's parts (lines 134-144): the pair of \<open>foundImage\<close> and the
  page after the loop.
\<close>

fun scan_parts :: "Part list \<Rightarrow> page \<Rightarrow> bool \<times> page" where
  "scan_parts [] s = (False, s)"
| "scan_parts (p # ps) s =
     (case inlineData p of
        Some b \<Rightarrow>
          (True, s\<lparr>resultImage_src := ''data:'' @ mimeType b @ '';base64,'' @ data b,
                   resultImage_display := ''block''\<rparr>)
      | None \<Rightarrow> scan_parts ps s)"

text \<open>\<open>response.candidates?.[0]?.content?.parts || []\<close>.\<close>

definition response_parts :: "GenerateContentResponse \<Rightarrow> Part list" where
  "response_parts response =
     (case candidates response of
        None \<Rightarrow> []
      | Some [] \<Rightarrow> []
      | Some (c # cs) \<Rightarrow>
          (case content c of
             None \<Rightarrow> []
           | Some ct \<Rightarrow> (case parts ct of None \<Rightarrow> [] | Some ps \<Rightarrow> ps)))"

text \<open>
  The \<open>try\<close> block of the click listener (lines 123-148): what it throws, if anything, and
  the page and the calls made when it is left.
\<close>

definition no_image_message :: string where
  "no_image_message = ''The model did not return an image. Please try a different prompt.''"

definition build_request :: "Part \<Rightarrow> string \<Rightarrow> request" where
  "build_request imagePart prompt =
     \<lparr>model = ''gemini-2.5-flash-image-preview'',
      contents = [imagePart, \<lparr>inlineData = None, text_of = Some prompt\<rparr>],
      responseModalities = [IMAGE, TEXT]\<rparr>"

definition try_block :: "env \<Rightarrow> File \<Rightarrow> string \<Rightarrow> run \<Rightarrow> thrown option \<times> run" where
  "try_block e file prompt st =
     (let st1 = (fst st, snd st @ [ReadAsDataURL file])
      in case fileToGenerativePart (readAsDataURL e file) file of
           Inl err \<Rightarrow> (Some err, st1)
         | Inr imagePart \<Rightarrow>
             (let req = build_request imagePart prompt;
                  st2 = (fst st1, snd st1 @ [GenerateContent req])
              in case generateContent e req of
                   Inl err \<Rightarrow> (Some err, st2)
                 | Inr response \<Rightarrow>
                     (let found = scan_parts (response_parts response) (fst st2);
                          st3 = (snd found, snd st2)
                      in if \<not> fst found
                         then (None, call_displayError no_image_message st3)
                         else (None, st3))))"

text \<open>
  The \<open>catch\<close> clause (lines 150-153):
  \<open>error instanceof Error ? error.message : "An unknown error occurred."\<close>.
\<close>

definition errorMessage :: "thrown \<Rightarrow> string" where
  "errorMessage err =
     (case err of
        Error m \<Rightarrow> m
      | ProgressEvent \<Rightarrow> ''An unknown error occurred.''
      | NonError v \<Rightarrow> ''An unknown error occurred.'')"

definition catch_clause :: "thrown \<Rightarrow> run \<Rightarrow> run" where
  "catch_clause err st =
     call_displayError (errorMessage err) (fst st, snd st @ [ConsoleError err])"

text \<open>The \<open>try\<close> statement with its \<open>catch\<close> clause (lines 122-153).\<close>

definition try_catch :: "env \<Rightarrow> File \<Rightarrow> string \<Rightarrow> run \<Rightarrow> run" where
  "try_catch e file prompt st =
     (case try_block e file prompt st of
        (None, st') \<Rightarrow> st'
      | (Some err, st') \<Rightarrow> catch_clause err st')"

text \<open>Lines 119-120: the result area is cleared.\<close>

definition hide_result :: "run \<Rightarrow> run" where
  "hide_result st =
     ((fst st)\<lparr>resultPlaceholder_display := ''none'', resultImage_display := ''none''\<rparr>,
      snd st)"

text \<open>
  The \<open>click\<close> listener of the generate button (lines 107-157), run until its promise
  settles: validation, \<open>setLoading(true)\<close>, the \<open>try\<close> statement, and \<open>setLoading(false)\<close>
  in the \<open>finally\<close> clause.  Both awaited promises are taken to settle; no other listener
  runs in between.
\<close>

definition generateBtn_click :: "env \<Rightarrow> run \<Rightarrow> run" where
  "generateBtn_click e st =
     (case selectedFile (fst st) of
        None \<Rightarrow> call_displayError ''Please upload an image first.'' st
      | Some file \<Rightarrow>
          (let prompt = trim (promptInput_value (fst st))
           in if prompt = [] then call_displayError ''Please enter a prompt.'' st
              else call_setLoading False
                     (try_catch e file prompt (hide_result (call_setLoading True st)))))"

text \<open>\<open>initializeApp\<close> (lines 160-162).\<close>

definition initializeApp :: "page \<Rightarrow> page" where
  "initializeApp s =
     s\<lparr>promptInput_value := ''Show the same highway after 10 years, with the planted trees fully grown, maintaining the same positions, perspective, and lighting''\<rparr>"

section \<open>Sample pages and collaborators\<close>

text \<open>A page before any interaction, a file, and collaborators with fixed answers.\<close>

definition blank_page :: page where
  "blank_page =
     \<lparr>selectedFile = None,
      imageUpload_disabled = False,
      imagePreview_src = [],
      imagePreview_display = ''none'',
      uploadPlaceholder_display = ''block'',
      promptInput_value = [],
      promptInput_disabled = False,
      generateBtn_disabled = True,
      resultPlaceholder_display = ''block'',
      resultPlaceholder_textContent = [],
      resultPlaceholder_color = [],
      resultImage_src = [],
      resultImage_display = ''none'',
      loader_classList = [''loader'', ''hidden'']\<rparr>"

definition png_file :: File where
  "png_file = \<lparr>name = ''road.png'', type = ''image/png'', bytes = [0x89, 0x50, 0x4E, 0x47]\<rparr>"

definition page_with_file :: page where
  "page_with_file =
     (initializeApp blank_page)\<lparr>selectedFile := Some png_file, generateBtn_disabled := False\<rparr>"

definition env_of :: "reader_event \<Rightarrow> thrown + GenerateContentResponse \<Rightarrow> env" where
  "env_of ev answer = \<lparr>readAsDataURL = (\<lambda>f. ev), generateContent = (\<lambda>r. answer)\<rparr>"

section \<open>The busy state\<close>

text \<open>
  C7: \<open>setLoading True\<close> shows the loader (the class \<open>hidden\<close> is gone) and disables the
  generate button, the prompt input and the file input, whatever the page was;
  \<open>setLoading False\<close> hides the loader, enables the prompt input and the file input, and
  leaves the generate button enabled exactly when a file is selected.
\<close>

theorem setLoading_effect:
  "''hidden'' \<notin> set (loader_classList (setLoading True s))
   \<and> generateBtn_disabled (setLoading True s)
   \<and> promptInput_disabled (setLoading True s)
   \<and> imageUpload_disabled (setLoading True s)
   \<and> ''hidden'' \<in> set (loader_classList (setLoading False s))
   \<and> \<not> promptInput_disabled (setLoading False s)
   \<and> \<not> imageUpload_disabled (setLoading False s)
   \<and> (\<not> generateBtn_disabled (setLoading False s)) = (selectedFile s \<noteq> None)"
  by (simp add: setLoading_def classList_add_def classList_remove_def)

text \<open>
  C9: \<open>setLoading\<close> is idempotent.  Calling it twice with the same argument leaves the
  page, and so the loader's visibility and the three disabled flags, as one call does.
\<close>

theorem setLoading_idempotent:
  "setLoading b (setLoading b s) = setLoading b s"
  by (cases b) (simp_all add: setLoading_def classList_add_def classList_remove_def)

section \<open>The file input\<close>

text \<open>
  C10: a \<open>change\<close> event with no file list or an empty one changes nothing: the page,
  with the selected file, the preview and the generate button, is as before, and no read is
  started.
\<close>

theorem imageUpload_change_no_files:
  "imageUpload_change e None st = st \<and> imageUpload_change e (Some []) st = st"
  by (simp add: imageUpload_change_def)

end
